theory Spec2Isabelle
  imports Complex_Main "HOL-Library.Word" "HOL-Library.Sublist"
begin

section \<open>ClusterComm: the inter-node request dispatcher\<close>

text \<open>
  A shallow embedding of \<^verbatim>\<open>Cluster/ClusterComm.cpp\<close>. Tickets and transaction ids are
  64-bit unsigned words, the C++ \<^verbatim>\<open>double\<close> timeouts and clock readings are idealised as
  reals, \<^verbatim>\<open>std::string\<close> is \<^typ>\<open>string\<close>.  The \<^verbatim>\<open>shared_ptr<ClusterCommResult>\<close>
  objects live in an explicit store, because the dispatcher's registry, the transport
  callbacks and the callers all hold the same object.  Log output is kept where a
  function's result is compared with what it logs (\<^verbatim>\<open>setDestination\<close>) and left out
  elsewhere.  The embedding covers the destination resolver, the request preparer,
  \<^verbatim>\<open>asyncRequest\<close>, \<^verbatim>\<open>syncRequest\<close>, \<^verbatim>\<open>match\<close>, \<^verbatim>\<open>enquire\<close>, \<^verbatim>\<open>wait\<close>,
  \<^verbatim>\<open>drop\<close> and the loop bodies of \<^verbatim>\<open>performRequests\<close>.
\<close>

subsection \<open>Data model\<close>

type_synonym OperationID = "64 word"
type_synonym Ticket = "64 word"
type_synonym CoordTransactionID = "64 word"
type_synonym ClientTransactionID = string
type_synonym ShardID = string
type_synonym ServerID = string
type_synonym ClusterCommTimeout = real
type_synonym Headers = "string \<rightharpoonup> string"

datatype ClusterCommOpStatus =
    CL_COMM_SUBMITTED
  | CL_COMM_SENDING
  | CL_COMM_SENT
  | CL_COMM_TIMEOUT
  | CL_COMM_RECEIVED
  | CL_COMM_ERROR
  | CL_COMM_DROPPED
  | CL_COMM_BACKEND_UNAVAILABLE

text \<open>The HTTP methods of \<^verbatim>\<open>rest::RequestType\<close>.\<close>

datatype RequestType = DELETE_REQ | GET | HEAD | OPTIONS | POST | PUT | PATCH

datatype LogLevel = FATAL | ERR | INFO | DEBUG | TRACE

type_synonym LogEntry = "LogLevel \<times> string"

text \<open>
  An HTTP request as \<^verbatim>\<open>HttpRequest::createHttpRequest\<close> followed by
  \<^verbatim>\<open>setRequestType\<close> builds it (the content type is JSON throughout), and a response.
\<close>

record HttpRequest =
  hr_type :: RequestType
  hr_body :: string
  hr_headers :: Headers

record GeneralResponse =
  responseCode :: nat
  respBody :: string
  respHeaders :: Headers

text \<open>
  Modelled from the spec: the struct \<^verbatim>\<open>ClusterCommResult\<close> is declared in
  \<^verbatim>\<open>Cluster/ClusterComm.h\<close>, which is not among the sources.  The members are the ones
  \<^verbatim>\<open>ClusterComm.cpp\<close> reads and writes (the spec's RequestRecord).
\<close>

record ClusterCommResult =
  clientTransactionID :: ClientTransactionID
  coordTransactionID :: CoordTransactionID
  operationID :: OperationID
  shardID :: ShardID
  serverID :: ServerID
  endpoint :: string
  errorMessage :: string
  status :: ClusterCommOpStatus
  dropped :: bool
  single :: bool
  sendWasComplete :: bool
  answer_code :: nat
  answer :: "GeneralResponse option"

text \<open>
  The external collaborators and build parameters of the dispatcher: the topology service
  (\<^verbatim>\<open>ClusterInfo\<close>), the identity service (\<^verbatim>\<open>ServerState\<close>), the encoded hybrid logical
  clock reading, the process-wide \<^verbatim>\<open>_makeNolockHeaders\<close> set (\<open>None\<close> is the null
  pointer), the \<^verbatim>\<open>_logConnectionErrors\<close> flag, whether \<^verbatim>\<open>TRI_ASSERT\<close> is compiled in
  (maintainer mode), the values the constructors of \<^verbatim>\<open>ClusterCommResult\<close> and
  \<^verbatim>\<open>communicator::Options\<close> give to the members that are not strings, and the methods
  \<^verbatim>\<open>fromResponse\<close> and \<^verbatim>\<open>fromError\<close> of \<^verbatim>\<open>ClusterCommResult\<close>, none of which is
  part of the sources.
\<close>

record Options =
  connectionTimeout :: real
  requestTimeout :: real

record Env =
  getResponsibleServer :: "ShardID \<Rightarrow> ServerID list"
  getServerEndpoint :: "ServerID \<Rightarrow> string"
  getAuthentication :: string
  hlcTimeStamp :: string
  makeNolockHeaders :: "ShardID list option"
  logConnectionErrors :: bool
  maintainerMode :: bool
  resultDefaults :: ClusterCommResult
  optionDefaults :: Options
  fromResponse :: "GeneralResponse \<Rightarrow> ClusterCommResult \<Rightarrow> ClusterCommResult"
  fromError :: "int \<Rightarrow> GeneralResponse option \<Rightarrow> ClusterCommResult \<Rightarrow> ClusterCommResult"

text \<open>\<^verbatim>\<open>new ClusterCommResult()\<close>: every \<^verbatim>\<open>std::string\<close> member starts empty.\<close>

definition ClusterCommResult_new :: "Env \<Rightarrow> ClusterCommResult" where
  "ClusterCommResult_new env =
     (resultDefaults env)\<lparr>clientTransactionID := '''', shardID := '''', serverID := '''',
        endpoint := '''', errorMessage := ''''\<rparr>"

text \<open>
  Modelled from the spec: the constant \<^verbatim>\<open>StaticStrings::HLCHeader\<close> is defined in
  \<^verbatim>\<open>Basics/StaticStrings.cpp\<close>, which is not among the sources; the spec names the header
  \<^verbatim>\<open>X-Arango-HLC\<close>.
\<close>

definition HLCHeader :: string where
  "HLCHeader = ''X-Arango-HLC''"

definition quote :: string where
  "quote = [CHR 0x27]"

subsection \<open>Destination resolver\<close>

text \<open>
  \<^verbatim>\<open>ClusterCommResult::setDestination\<close>.  \<^verbatim>\<open>dest.substr(0, n)\<close> is \<^term>\<open>take n dest\<close> and
  \<^verbatim>\<open>dest.substr(n)\<close>, called only after a prefix of length \<open>n\<close> matched, is
  \<^term>\<open>drop n dest\<close>.  The first chain of branches either returns (\<open>Inl\<close>) or falls through
  to the endpoint lookup (\<open>Inr\<close>).  The function returns the updated record together with
  the lines it logs.
\<close>

definition setDestination ::
  "Env \<Rightarrow> string \<Rightarrow> bool \<Rightarrow> ClusterCommResult \<Rightarrow> ClusterCommResult \<times> LogEntry list" where
  "setDestination env dest logConnErrors r =
     (case
        (if take 6 dest = ''shard:'' then
           (let r1 = r\<lparr>shardID := drop 6 dest\<rparr> in
            case getResponsibleServer env (shardID r1) of
              sv # _ \<Rightarrow>
                Inr (r1\<lparr>serverID := sv\<rparr>, [(DEBUG, ''Responsible server: '' @ sv)])
            | [] \<Rightarrow>
                Inl (r1\<lparr>serverID := '''', status := CL_COMM_BACKEND_UNAVAILABLE\<rparr>,
                     [(if logConnErrors then ERR else INFO,
                       ''cannot find responsible server for shard '' @ quote @ shardID r1 @ quote)]))
         else if take 7 dest = ''server:'' then
           Inr (r\<lparr>shardID := '''', serverID := drop 7 dest\<rparr>, [])
         else if take 6 dest = ''tcp://'' \<or> take 6 dest = ''ssl://'' then
           Inl (r\<lparr>shardID := '''', serverID := '''', endpoint := dest\<rparr>, [])
         else
           Inl (r\<lparr>shardID := '''', serverID := '''', endpoint := '''',
                  status := CL_COMM_BACKEND_UNAVAILABLE,
                  errorMessage := ''did not understand destination'' @ quote @ dest @ quote\<rparr>,
                [(if logConnErrors then ERR else INFO,
                  ''did not understand destination '' @ quote @ dest @ quote)]))
      of
        Inl early \<Rightarrow> early
      | Inr (r2, lg) \<Rightarrow>
          (let r3 = r2\<lparr>endpoint := getServerEndpoint env (serverID r2)\<rparr> in
           if endpoint r3 = '''' then
             (r3\<lparr>status := CL_COMM_BACKEND_UNAVAILABLE,
                 errorMessage := ''did not find endpoint of server '' @ quote @ serverID r3 @ quote\<rparr>,
              lg @ [(if logConnErrors then ERR else INFO,
                     ''did not find endpoint of server '' @ quote @ serverID r3 @ quote)])
           else (r3, lg)))"

subsection \<open>Request preparer\<close>

text \<open>\<^verbatim>\<open>ClusterComm::createCommunicatorDestination\<close>: the URL handed to the transport.\<close>

definition createCommunicatorDestination :: "string \<Rightarrow> string \<Rightarrow> string" where
  "createCommunicatorDestination endpt path =
     (let httpEndpoint =
        (if take 6 endpt = ''tcp://'' then ''http://'' @ drop 6 endpt
         else if take 6 endpt = ''ssl://'' then ''https://'' @ drop 6 endpt
         else '''')
      in httpEndpoint @ path)"

text \<open>
  \<^verbatim>\<open>ClusterComm::prepareRequest\<close>.  The result is the freshly allocated record and the
  request, \<open>None\<close> for the null pointer returned when the endpoint is empty.  The \<open>body\<close>
  argument is a pointer, \<open>None\<close> when null.
\<close>

definition prepareRequest ::
  "Env \<Rightarrow> string \<Rightarrow> RequestType \<Rightarrow> string option \<Rightarrow> Headers
     \<Rightarrow> ClusterCommResult \<times> HttpRequest option" where
  "prepareRequest env destination reqtype body headerFields =
     (let result0 = fst (setDestination env destination (logConnectionErrors env)
                          (ClusterCommResult_new env)) in
      if endpoint result0 = '''' then (result0, None)
      else
        (let result1 = result0\<lparr>status := CL_COMM_SUBMITTED\<rparr>;
             headersCopy = headerFields;
             headers1 =
               (if take 6 destination = ''shard:'' then
                  (case makeNolockHeaders env of
                     None \<Rightarrow> headersCopy
                   | Some nolock \<Rightarrow>
                       if List.member nolock (shardID result1)
                       then headersCopy(''X-Arango-Nolock'' \<mapsto> shardID result1)
                       else headersCopy)
                else headersCopy);
             headers2 = headers1(''Authorization'' \<mapsto> getAuthentication env);
             headers3 = headers2(HLCHeader \<mapsto> hlcTimeStamp env);
             request =
               (case body of
                  None \<Rightarrow> \<lparr>hr_type = reqtype, hr_body = '''', hr_headers = headers3\<rparr>
                | Some b \<Rightarrow> \<lparr>hr_type = reqtype, hr_body = b, hr_headers = headers3\<rparr>)
         in (result1, Some request)))"

subsection \<open>Transport driver\<close>

text \<open>
  The callbacks handed to the transport are closures; each is represented by what it
  captures: the address of the shared record and the connection-error log flag.
  \<open>CallerCallback\<close> are the closures built when \<^verbatim>\<open>asyncRequest\<close> is given a callback,
  \<open>BroadcastReceived\<close> the ones that broadcast \<^verbatim>\<open>somethingReceived\<close>, \<open>SignalSync\<close> the
  ones of \<^verbatim>\<open>syncRequest\<close>, which signal its private condition variable.
\<close>

datatype Callbacks =
    CallerCallback nat bool
  | BroadcastReceived nat bool
  | SignalSync bool

text \<open>\<^verbatim>\<open>Communicator::NewRequest\<close> and the queue of submissions, from \<^verbatim>\<open>Communicator.h\<close>.\<close>

record NewRequest =
  nr_destination :: string
  nr_request :: HttpRequest
  nr_callbacks :: Callbacks
  nr_options :: Options
  nr_ticketId :: Ticket

record Communicator =
  newRequests :: "NewRequest list"
  lastTicketId :: Ticket

text \<open>
  Modelled from the spec: \<^verbatim>\<open>Communicator::addRequest\<close> is only declared in
  \<^verbatim>\<open>Communicator.h\<close>; its body is not among the sources.  By the spec, submit queues the
  request with its destination, callbacks and options and returns a ticket from a
  monotonic source that skips zero.
\<close>

definition addRequest ::
  "Communicator \<Rightarrow> string \<Rightarrow> HttpRequest \<Rightarrow> Callbacks \<Rightarrow> Options \<Rightarrow> Ticket \<times> Communicator" where
  "addRequest c dest req cbs opt =
     (let t = (if lastTicketId c + 1 = 0 then 1 else lastTicketId c + 1) in
      (t, c\<lparr>newRequests := newRequests c @
               [\<lparr>nr_destination = dest, nr_request = req, nr_callbacks = cbs,
                 nr_options = opt, nr_ticketId = t\<rparr>],
             lastTicketId := t\<rparr>))"

subsection \<open>Ticket registry and dispatcher state\<close>

text \<open>
  \<^verbatim>\<open>AsyncResponse\<close> holds the submit time and the shared pointer to the record, here its
  address in the store.  An operation of the older queue model embeds its record.  The
  members of \<^verbatim>\<open>ClusterComm\<close> are declared in \<^verbatim>\<open>ClusterComm.h\<close> (not among the sources);
  they are the ones the code uses: the table \<^verbatim>\<open>responses\<close> in its iteration order, with
  at most one entry per ticket, and the queues \<^verbatim>\<open>toSend\<close> and \<^verbatim>\<open>received\<close> with their
  indexes by operation id.  A queue node carries a number that stands for its list
  iterator, which is what the indexes store.
\<close>

record AsyncResponse =
  timestamp :: real
  result :: nat

record ClusterCommOperation =
  op_result :: ClusterCommResult
  op_hasCallback :: bool

record ClusterComm =
  heap :: "nat \<Rightarrow> ClusterCommResult"
  nextAddr :: nat
  communicator :: Communicator
  responses :: "(Ticket \<times> AsyncResponse) list"
  toSend :: "(nat \<times> ClusterCommOperation) list"
  toSendByOpID :: "OperationID \<rightharpoonup> nat"
  received :: "(nat \<times> ClusterCommOperation) list"
  receivedByOpID :: "OperationID \<rightharpoonup> nat"

text \<open>\<^verbatim>\<open>responses.emplace(k, v)\<close>: no effect when the key is already present.\<close>

definition emplace :: "Ticket \<Rightarrow> AsyncResponse \<Rightarrow> (Ticket \<times> AsyncResponse) list
    \<Rightarrow> (Ticket \<times> AsyncResponse) list" where
  "emplace k v rs = (if map_of rs k = None then rs @ [(k, v)] else rs)"

text \<open>\<^verbatim>\<open>responses.erase(i)\<close> for the entry of ticket \<open>k\<close>.\<close>

definition erase :: "Ticket \<Rightarrow> (Ticket \<times> AsyncResponse) list \<Rightarrow> (Ticket \<times> AsyncResponse) list" where
  "erase k rs = filter (\<lambda>(k', v). k' \<noteq> k) rs"

subsection \<open>Dispatcher core\<close>

text \<open>
  \<^verbatim>\<open>ClusterComm::asyncRequest\<close>.  \<open>now\<close> is the reading of \<^verbatim>\<open>TRI_microtime()\<close>,
  \<open>hasCallback\<close> says whether \<^verbatim>\<open>callback\<close> is non-null, \<open>body\<close> is \<open>None\<close> for a null
  body pointer.  The record allocated by \<^verbatim>\<open>prepareRequest\<close> is placed in the store at a
  fresh address; every later write goes through that address, as through the shared
  pointer.
\<close>

definition asyncRequest ::
  "Env \<Rightarrow> real \<Rightarrow> bool \<Rightarrow> ClusterComm \<Rightarrow> ClientTransactionID \<Rightarrow> CoordTransactionID \<Rightarrow> string
     \<Rightarrow> RequestType \<Rightarrow> string \<Rightarrow> string option \<Rightarrow> Headers \<Rightarrow> ClusterCommTimeout \<Rightarrow> bool
     \<Rightarrow> ClusterCommTimeout \<Rightarrow> OperationID \<times> ClusterComm" where
  "asyncRequest env now hasCallback s clientTxID coordTxID destination reqtype path body
       headerFields timeout singleRequest initTimeout =
     (let prepared = prepareRequest env destination reqtype body headerFields;
          a = nextAddr s;
          s1 = s\<lparr>heap := (heap s)(a := fst prepared), nextAddr := Suc a\<rparr>;
          s2 = s1\<lparr>heap := (heap s1)(a := (heap s1 a)\<lparr>clientTransactionID := clientTxID\<rparr>)\<rparr>;
          s3 = s2\<lparr>heap := (heap s2)(a := (heap s2 a)\<lparr>coordTransactionID := coordTxID\<rparr>)\<rparr>;
          s4 = s3\<lparr>heap := (heap s3)(a := (heap s3 a)\<lparr>single := singleRequest\<rparr>)\<rparr>;
          request =
            (case snd prepared of
               None \<Rightarrow> \<lparr>hr_type = reqtype, hr_body = '''', hr_headers = Map.empty\<rparr>
             | Some rq \<Rightarrow> rq);
          opt = (optionDefaults env)\<lparr>connectionTimeout := initTimeout\<rparr>
                  \<lparr>requestTimeout := timeout\<rparr>;
          doLogConnectionErrors = logConnectionErrors env;
          callbacks =
            (if hasCallback then CallerCallback a doLogConnectionErrors
             else BroadcastReceived a doLogConnectionErrors);
          added = addRequest (communicator s4)
                    (createCommunicatorDestination (endpoint (heap s4 a)) path)
                    request callbacks opt;
          ticketId = fst added;
          s5 = s4\<lparr>communicator := snd added\<rparr>;
          s6 = s5\<lparr>heap := (heap s5)(a := (heap s5 a)\<lparr>operationID := ticketId\<rparr>)\<rparr>;
          s7 = s6\<lparr>responses := emplace ticketId \<lparr>timestamp = now, result = a\<rparr> (responses s6)\<rparr>;
          s8 = s7\<lparr>heap := (heap s7)(a := (heap s7 a)\<lparr>status := CL_COMM_SUBMITTED\<rparr>)\<rparr>
      in (ticketId, s8))"

text \<open>
  What the transport does to a request of \<^verbatim>\<open>syncRequest\<close>: it calls the success or the
  error callback, which store the outcome with \<^verbatim>\<open>fromResponse\<close> or \<^verbatim>\<open>fromError\<close> and
  signal the condition variable.
\<close>

datatype TransportEvent = OnSuccess GeneralResponse | OnError int "GeneralResponse option"

text \<open>
  The loop \<^verbatim>\<open>while (!wasSignaled) cv.wait(1000000)\<close>.  \<open>ev k\<close> is the callback that has
  fired by the \<open>k\<close>-th test of \<^verbatim>\<open>wasSignaled\<close>, if any; \<open>k\<close> counts the one-second waits
  made so far.  The loop need not end: \<open>None\<close> says that it is still waiting when the fuel
  is used up.
\<close>

fun syncLoop :: "nat \<Rightarrow> (nat \<Rightarrow> TransportEvent option) \<Rightarrow> Env \<Rightarrow> nat \<Rightarrow> ClusterCommResult
    \<Rightarrow> (ClusterCommResult \<times> nat) option" where
  "syncLoop fuel ev env k r =
     (case ev k of
        Some (OnSuccess resp) \<Rightarrow> Some (fromResponse env resp r, k)
      | Some (OnError code resp) \<Rightarrow> Some (fromError env code resp r, k)
      | None \<Rightarrow> (case fuel of 0 \<Rightarrow> None | Suc n \<Rightarrow> syncLoop n ev env (Suc k) r))"

text \<open>
  \<^verbatim>\<open>ClusterComm::syncRequest\<close>.  It returns the record, the transport and the number of
  waits on the private condition variable.  The transaction ids are arguments that the
  body does not use.
\<close>

definition syncRequest ::
  "Env \<Rightarrow> nat \<Rightarrow> (nat \<Rightarrow> TransportEvent option) \<Rightarrow> Communicator \<Rightarrow> ClientTransactionID
     \<Rightarrow> CoordTransactionID \<Rightarrow> string \<Rightarrow> RequestType \<Rightarrow> string \<Rightarrow> string \<Rightarrow> Headers
     \<Rightarrow> ClusterCommTimeout \<Rightarrow> (ClusterCommResult \<times> Communicator \<times> nat) option" where
  "syncRequest env fuel ev comm clientTxID coordTxID destination reqtype path body
       headerFields timeout =
     (let prepared = prepareRequest env destination reqtype (Some body) headerFields;
          result1 = (fst prepared)\<lparr>single := True\<rparr>
      in case snd prepared of
           None \<Rightarrow> Some (result1, comm, 0)
         | Some request \<Rightarrow>
             (let doLogConnectionErrors = logConnectionErrors env;
                  opt = (optionDefaults env)\<lparr>requestTimeout := timeout\<rparr>;
                  added = addRequest comm
                            (createCommunicatorDestination (endpoint result1) path)
                            request (SignalSync doLogConnectionErrors) opt;
                  result2 = result1\<lparr>status := CL_COMM_SENDING\<rparr>
              in case syncLoop fuel ev env 0 result2 of
                   None \<Rightarrow> None
                 | Some (r, waits) \<Rightarrow> Some (r, snd added, waits)))"

text \<open>\<^verbatim>\<open>ClusterComm::match\<close>.\<close>

definition match :: "ClientTransactionID \<Rightarrow> CoordTransactionID \<Rightarrow> ShardID \<Rightarrow> ClusterCommResult
    \<Rightarrow> bool" where
  "match clientTxID coordTxID shID res =
     ((clientTxID = '''' \<or> clientTxID = clientTransactionID res) \<and>
      (0 = coordTxID \<or> coordTxID = coordTransactionID res) \<and>
      (shID = '''' \<or> shID = shardID res))"

text \<open>\<^verbatim>\<open>ClusterComm::enquire\<close>.\<close>

definition enquire :: "Env \<Rightarrow> ClusterComm \<Rightarrow> Ticket \<Rightarrow> ClusterCommResult" where
  "enquire env s ticketId =
     (case map_of (responses s) ticketId of
        Some response \<Rightarrow> heap s (result response)
      | None \<Rightarrow> (ClusterCommResult_new env)\<lparr>operationID := ticketId, status := CL_COMM_DROPPED\<rparr>)"

text \<open>
  \<^verbatim>\<open>ClusterComm::wait\<close>, first part: locating the entry.  With ticket zero the table is
  scanned for the first entry whose record satisfies \<^const>\<open>match\<close>; otherwise the entry is
  looked up by the ticket alone.
\<close>

definition wait_locate ::
  "ClusterComm \<Rightarrow> ClientTransactionID \<Rightarrow> CoordTransactionID \<Rightarrow> Ticket \<Rightarrow> ShardID
     \<Rightarrow> (Ticket \<times> AsyncResponse) option" where
  "wait_locate s clientTxID coordTxID ticketId shID =
     (if ticketId = 0 then
        find (\<lambda>(k, response). match clientTxID coordTxID shID (heap s (result response)))
          (responses s)
      else find (\<lambda>(k, response). k = ticketId) (responses s))"

text \<open>
  The loop \<^verbatim>\<open>while (response.result->status == CL_COMM_SUBMITTED)
  somethingReceived.wait(60000000.0)\<close>.  \<open>others k\<close> is what the other threads (the transport
  callbacks) do to the shared state during the \<open>k\<close>-th wait, each wait lasting at most 60
  seconds; \<open>k\<close> counts the waits made so far.  The loop need not end: \<open>None\<close> says that it is
  still waiting when the fuel is used up.
\<close>

fun wait_loop :: "nat \<Rightarrow> (nat \<Rightarrow> ClusterComm \<Rightarrow> ClusterComm) \<Rightarrow> nat \<Rightarrow> nat \<Rightarrow> ClusterComm
    \<Rightarrow> (nat \<times> ClusterComm) option" where
  "wait_loop fuel others k a s =
     (if status (heap s a) = CL_COMM_SUBMITTED then
        (case fuel of 0 \<Rightarrow> None | Suc n \<Rightarrow> wait_loop n others (Suc k) a (others k s))
      else Some (k, s))"

declare wait_loop.simps [simp del]

text \<open>
  \<^verbatim>\<open>ClusterComm::wait\<close>.  It returns the record by value, the state and the number of waits
  on \<^verbatim>\<open>somethingReceived\<close>.  The \<open>timeout\<close> argument is the caller's; the body does not
  read it.  The bookkeeping of the dispatcher thread (\<^verbatim>\<open>block\<close>/\<^verbatim>\<open>unblock\<close>) is left out.
\<close>

definition wait ::
  "Env \<Rightarrow> nat \<Rightarrow> (nat \<Rightarrow> ClusterComm \<Rightarrow> ClusterComm) \<Rightarrow> ClusterComm \<Rightarrow> ClientTransactionID
     \<Rightarrow> CoordTransactionID \<Rightarrow> Ticket \<Rightarrow> ShardID \<Rightarrow> ClusterCommTimeout
     \<Rightarrow> (ClusterCommResult \<times> ClusterComm \<times> nat) option" where
  "wait env fuel others s clientTxID coordTxID ticketId shID timeout =
     (case wait_locate s clientTxID coordTxID ticketId shID of
        None \<Rightarrow>
          Some ((ClusterCommResult_new env)\<lparr>operationID := ticketId, status := CL_COMM_DROPPED\<rparr>,
                s, 0)
      | Some (k, response) \<Rightarrow>
          (case wait_loop fuel others 0 (result response) s of
             None \<Rightarrow> None
           | Some (n, s') \<Rightarrow>
               Some (heap s' (result response), s'\<lparr>responses := erase k (responses s')\<rparr>, n)))"

text \<open>
  \<^verbatim>\<open>ClusterComm::drop\<close>.  The condition under which an operation of a queue is selected
  is written twice in the source, once per queue.
\<close>

definition drop_selects ::
  "ClientTransactionID \<Rightarrow> CoordTransactionID \<Rightarrow> OperationID \<Rightarrow> ShardID \<Rightarrow> ClusterCommResult
     \<Rightarrow> bool" where
  "drop_selects clientTxID coordTxID opID shID res =
     ((0 \<noteq> opID \<and> opID = operationID res) \<or> match clientTxID coordTxID shID res)"

datatype Failure = AssertionFailed | UndefinedBehaviour

text \<open>
  The loop over \<^verbatim>\<open>toSend\<close>.  A selected operation in status Sending is flagged and kept;
  any other selected operation is erased from the queue and from the index.  The lookup
  in the index is asserted to succeed and to give the node at hand; with assertions
  compiled out, erasing the end iterator is undefined behaviour.
\<close>

fun drop_toSend ::
  "Env \<Rightarrow> ClientTransactionID \<Rightarrow> CoordTransactionID \<Rightarrow> OperationID \<Rightarrow> ShardID
     \<Rightarrow> (nat \<times> ClusterCommOperation) list \<Rightarrow> (OperationID \<rightharpoonup> nat)
     \<Rightarrow> Failure + ((nat \<times> ClusterCommOperation) list \<times> (OperationID \<rightharpoonup> nat))" where
  "drop_toSend env clientTxID coordTxID opID shID [] idx = Inr ([], idx)"
| "drop_toSend env clientTxID coordTxID opID shID ((q, op) # rest) idx =
     (if drop_selects clientTxID coordTxID opID shID (op_result op) then
        (if status (op_result op) = CL_COMM_SENDING then
           (case drop_toSend env clientTxID coordTxID opID shID rest idx of
              Inl e \<Rightarrow> Inl e
            | Inr (rest', idx') \<Rightarrow>
                Inr ((q, op\<lparr>op_result := (op_result op)\<lparr>dropped := True\<rparr>\<rparr>) # rest', idx'))
         else
           (case idx (operationID (op_result op)) of
              None \<Rightarrow> Inl (if maintainerMode env then AssertionFailed else UndefinedBehaviour)
            | Some q' \<Rightarrow>
                if maintainerMode env \<and> q \<noteq> q' then Inl AssertionFailed
                else drop_toSend env clientTxID coordTxID opID shID rest
                       (idx(operationID (op_result op) := None))))
      else
        (case drop_toSend env clientTxID coordTxID opID shID rest idx of
           Inl e \<Rightarrow> Inl e
         | Inr (rest', idx') \<Rightarrow> Inr ((q, op) # rest', idx')))"

text \<open>The loop over \<^verbatim>\<open>received\<close>: every selected operation is erased and deleted.\<close>

fun drop_received ::
  "ClientTransactionID \<Rightarrow> CoordTransactionID \<Rightarrow> OperationID \<Rightarrow> ShardID
     \<Rightarrow> (nat \<times> ClusterCommOperation) list \<Rightarrow> (OperationID \<rightharpoonup> nat)
     \<Rightarrow> (nat \<times> ClusterCommOperation) list \<times> (OperationID \<rightharpoonup> nat)" where
  "drop_received clientTxID coordTxID opID shID [] idx = ([], idx)"
| "drop_received clientTxID coordTxID opID shID ((q, op) # rest) idx =
     (if drop_selects clientTxID coordTxID opID shID (op_result op) then
        drop_received clientTxID coordTxID opID shID rest
          (if idx (operationID (op_result op)) = Some q
           then idx(operationID (op_result op) := None) else idx)
      else
        (case drop_received clientTxID coordTxID opID shID rest idx of
           (rest', idx') \<Rightarrow> ((q, op) # rest', idx')))"

definition drop_cc ::
  "Env \<Rightarrow> ClusterComm \<Rightarrow> ClientTransactionID \<Rightarrow> CoordTransactionID \<Rightarrow> OperationID \<Rightarrow> ShardID
     \<Rightarrow> Failure + ClusterComm" where
  "drop_cc env s clientTxID coordTxID opID shID =
     (case drop_toSend env clientTxID coordTxID opID shID (toSend s) (toSendByOpID s) of
        Inl e \<Rightarrow> Inl e
      | Inr (ts, tidx) \<Rightarrow>
          (case drop_received clientTxID coordTxID opID shID (received s) (receivedByOpID s) of
             (rc, ridx) \<Rightarrow>
               Inr (s\<lparr>toSend := ts, toSendByOpID := tidx, received := rc,
                       receivedByOpID := ridx\<rparr>)))"

text \<open>
  The matching rule in the words of the specification: each of the four filters is a
  wildcard or equals the record's value, and all of them hold together.
\<close>

definition spec_match ::
  "ClientTransactionID \<Rightarrow> CoordTransactionID \<Rightarrow> Ticket \<Rightarrow> ShardID \<Rightarrow> ClusterCommResult
     \<Rightarrow> bool" where
  "spec_match clientTxID coordTxID ticketId shID res =
     ((clientTxID = '''' \<or> clientTxID = clientTransactionID res) \<and>
      (coordTxID = 0 \<or> coordTxID = coordTransactionID res) \<and>
      (shID = '''' \<or> shID = shardID res) \<and>
      (ticketId = 0 \<or> ticketId = operationID res))"

subsection \<open>Fan-out orchestrator\<close>

text \<open>
  \<^verbatim>\<open>ClusterCommRequest\<close> (declared in \<^verbatim>\<open>ClusterComm.h\<close>, not among the sources) with the
  members \<^verbatim>\<open>performRequests\<close> uses, and the local variables of \<^verbatim>\<open>performRequests\<close> that
  outlive one iteration.
\<close>

record ClusterCommRequest =
  rq_destination :: string
  rq_requestType :: RequestType
  rq_path :: string
  rq_body :: "string option"
  rq_headerFields :: "Headers option"
  rq_result :: ClusterCommResult
  rq_done :: bool

record PerformState =
  requests :: "ClusterCommRequest list"
  dueTime :: "real list"
  nrDone :: nat
  nrGood :: nat
  opIDtoIndex :: "OperationID \<rightharpoonup> nat"
  cc :: ClusterComm

text \<open>The state before the main loop: every request is due at the start time.\<close>

definition perform_init :: "ClusterCommRequest list \<Rightarrow> real \<Rightarrow> ClusterComm \<Rightarrow> PerformState" where
  "perform_init reqs startTime s =
     \<lparr>requests = reqs, dueTime = replicate (length reqs) startTime, nrDone = 0, nrGood = 0,
      opIDtoIndex = Map.empty, cc = s\<rparr>"

text \<open>The guard of the sending loop: \<^verbatim>\<open>!requests[i].done && now >= dueTime[i]\<close>.\<close>

definition is_due :: "PerformState \<Rightarrow> real \<Rightarrow> nat \<Rightarrow> bool" where
  "is_due st now i = (\<not> rq_done (requests st ! i) \<and> now \<ge> dueTime st ! i)"

text \<open>
  One iteration of the sending loop, for an index below the number of requests.
  \<open>stamp\<close> is the clock reading \<^verbatim>\<open>asyncRequest\<close> takes.
\<close>

definition send_one ::
  "Env \<Rightarrow> real \<Rightarrow> real \<Rightarrow> real \<Rightarrow> CoordTransactionID \<Rightarrow> (nat \<Rightarrow> real) \<Rightarrow> PerformState \<Rightarrow> nat
     \<Rightarrow> PerformState" where
  "send_one env now startTime endTime coordinatorTransactionID stamp st i =
     (if is_due st now i then
        (let rq = requests st ! i;
             hf = (case rq_headerFields rq of None \<Rightarrow> Map.empty | Some h \<Rightarrow> h);
             localInitTimeout0 = min (max 1 (now - startTime)) 10;
             localTimeout = endTime - now;
             localInitTimeout =
               (if localInitTimeout0 > localTimeout then localTimeout else localInitTimeout0);
             sent = asyncRequest env (stamp i) False (cc st) '''' coordinatorTransactionID
                      (rq_destination rq) (rq_requestType rq) (rq_path rq) (rq_body rq) hf
                      localTimeout False localInitTimeout;
             opId = fst sent
         in st\<lparr>requests := (requests st)[i := rq\<lparr>rq_headerFields := Some hf\<rparr>],
                dueTime := (dueTime st)[i := endTime + 10],
                opIDtoIndex :=
                  (if opIDtoIndex st opId = None then (opIDtoIndex st)(opId \<mapsto> i)
                   else opIDtoIndex st),
                cc := snd sent\<rparr>)
      else st)"

definition send_due ::
  "Env \<Rightarrow> real \<Rightarrow> real \<Rightarrow> real \<Rightarrow> CoordTransactionID \<Rightarrow> (nat \<Rightarrow> real) \<Rightarrow> PerformState
     \<Rightarrow> PerformState" where
  "send_due env now startTime endTime coordinatorTransactionID stamp st =
     foldl (send_one env now startTime endTime coordinatorTransactionID stamp) st
       [0..<length (requests st)]"

text \<open>How long the inner loop may wait: the earliest due time of a request not done.\<close>

definition compute_actionNeeded :: "real \<Rightarrow> PerformState \<Rightarrow> real" where
  "compute_actionNeeded endTime st =
     foldl (\<lambda>an i. if \<not> rq_done (requests st ! i) \<and> dueTime st ! i < an
                    then dueTime st ! i else an)
       endTime [0..<length (dueTime st)]"

text \<open>How one pass through the body of the inner loop ends.\<close>

datatype LoopCtl = LoopBreak | LoopContinue | LoopSleepContinue int | LoopNext | LoopReturn nat

text \<open>The test that closes the body of the inner loop.\<close>

definition loop_end :: "PerformState \<Rightarrow> real \<Rightarrow> LoopCtl \<times> PerformState \<times> real" where
  "loop_end st an =
     (if nrDone st \<ge> length (requests st) then (LoopReturn (nrGood st), st, an)
      else (LoopNext, st, an))"

text \<open>
  The body of the inner loop of \<^verbatim>\<open>performRequests\<close> from the return of \<^verbatim>\<open>wait\<close> on.
  \<open>now\<close> is the clock reading taken before \<^verbatim>\<open>wait\<close> was called, \<open>now2\<close> the one taken in
  the Dropped branch, \<open>res\<close> what \<^verbatim>\<open>wait\<close> returned, \<open>an\<close> the variable
  \<^verbatim>\<open>actionNeeded\<close>.  The branch that reschedules starts with \<^verbatim>\<open>TRI_ASSERT(false)\<close>.  An
  index outside the vectors is undefined behaviour.
\<close>

definition handle_result ::
  "Env \<Rightarrow> real \<Rightarrow> real \<Rightarrow> real \<Rightarrow> real \<Rightarrow> ClusterCommResult \<Rightarrow> PerformState \<Rightarrow> real
     \<Rightarrow> Failure + (LoopCtl \<times> PerformState \<times> real)" where
  "handle_result env startTime endTime now now2 res st an =
     (if status res = CL_COMM_TIMEOUT \<and> operationID res = 0 then Inr (LoopBreak, st, an)
      else if status res = CL_COMM_DROPPED then
        (if now2 \<ge> an then Inr (LoopBreak, st, an)
         else Inr (LoopSleepContinue (min 500000 \<lfloor>(an - now2) * 1000000\<rfloor>), st, an))
      else
        (case opIDtoIndex st (operationID res) of
           None \<Rightarrow> Inr (LoopContinue, st, an)
         | Some index \<Rightarrow>
             if \<not> (index < length (requests st) \<and> index < length (dueTime st))
             then Inl UndefinedBehaviour
             else if status res = CL_COMM_RECEIVED then
               Inr (loop_end
                 (st\<lparr>requests := (requests st)
                        [index := (requests st ! index)\<lparr>rq_result := res, rq_done := True\<rparr>],
                      nrDone := nrDone st + 1,
                      nrGood := (if answer_code res = 200 \<or> answer_code res = 201 \<or>
                                    answer_code res = 202
                                 then nrGood st + 1 else nrGood st)\<rparr>) an)
             else if status res = CL_COMM_BACKEND_UNAVAILABLE \<or>
                     (status res = CL_COMM_TIMEOUT \<and> \<not> sendWasComplete res) then
               (if maintainerMode env then Inl AssertionFailed
                else
                  (let due = min 10 (max 0.2 (2 * (now - startTime))) + now;
                       st1 = st\<lparr>requests := (requests st)
                                  [index := (requests st ! index)\<lparr>rq_result := res\<rparr>],
                                dueTime := (dueTime st)[index := due]\<rparr>;
                       st2 = (if due \<ge> endTime
                              then st1\<lparr>requests := (requests st1)
                                         [index := (requests st1 ! index)\<lparr>rq_done := True\<rparr>],
                                       nrDone := nrDone st1 + 1\<rparr>
                              else st1);
                       an' = (if due < an then due else an)
                   in Inr (loop_end st2 an')))
             else
               Inr (loop_end
                 (st\<lparr>requests := (requests st)
                        [index := (requests st ! index)\<lparr>rq_result := res, rq_done := True\<rparr>],
                      nrDone := nrDone st + 1\<rparr>) an)))"

text \<open>
  One pass through the inner loop: the clock is read, the loop is left when the time for
  the next action has come, otherwise \<^verbatim>\<open>wait\<close> is called for any request of this
  fan-out with the remaining time as its timeout and the result is handled.  \<open>None\<close> says
  that \<^verbatim>\<open>wait\<close> has not returned.
\<close>

definition inner_iteration ::
  "Env \<Rightarrow> nat \<Rightarrow> (nat \<Rightarrow> ClusterComm \<Rightarrow> ClusterComm) \<Rightarrow> real \<Rightarrow> real \<Rightarrow> CoordTransactionID
     \<Rightarrow> real \<Rightarrow> real \<Rightarrow> PerformState \<Rightarrow> real
     \<Rightarrow> (Failure + (LoopCtl \<times> PerformState \<times> real)) option" where
  "inner_iteration env fuel others startTime endTime coordinatorTransactionID now now2 st an =
     (if now \<ge> an then Some (Inr (LoopBreak, st, an))
      else
        (case wait env fuel others (cc st) '''' coordinatorTransactionID 0 '''' (an - now) of
           None \<Rightarrow> None
         | Some (res, s', n) \<Rightarrow>
             Some (handle_result env startTime endTime now now2 res (st\<lparr>cc := s'\<rparr>) an)))"

subsection \<open>Concrete scenarios\<close>

text \<open>
  The topology of the specification's scenarios: shard \<open>S1\<close> is served by \<open>srvA\<close> at
  \<open>tcp://h:8529\<close>; nothing else is known.  Assertions are compiled out in \<open>ex_env\<close> and
  compiled in in \<open>ex_env_maintainer\<close>.
\<close>

definition ex_defaults :: ClusterCommResult where
  "ex_defaults =
     \<lparr>clientTransactionID = '''', coordTransactionID = 0, operationID = 0, shardID = '''',
      serverID = '''', endpoint = '''', errorMessage = '''', status = CL_COMM_ERROR,
      dropped = False, single = False, sendWasComplete = False, answer_code = 102,
      answer = None\<rparr>"

definition ex_env :: Env where
  "ex_env =
     \<lparr>getResponsibleServer = (\<lambda>sh. if sh = ''S1'' then [''srvA''] else []),
      getServerEndpoint = (\<lambda>sv. if sv = ''srvA'' then ''tcp://h:8529'' else ''''),
      getAuthentication = ''bearer'',
      hlcTimeStamp = ''_Zk3'',
      makeNolockHeaders = None,
      logConnectionErrors = False,
      maintainerMode = False,
      resultDefaults = ex_defaults,
      optionDefaults = \<lparr>connectionTimeout = 0, requestTimeout = 0\<rparr>,
      fromResponse = (\<lambda>resp r. r\<lparr>status := CL_COMM_RECEIVED, answer_code := responseCode resp,
                                 answer := Some resp\<rparr>),
      fromError = (\<lambda>code resp r. r\<lparr>status := CL_COMM_ERROR\<rparr>)\<rparr>"

definition ex_env_maintainer :: Env where
  "ex_env_maintainer = ex_env\<lparr>maintainerMode := True\<rparr>"

definition ex_cc :: ClusterComm where
  "ex_cc =
     \<lparr>heap = (\<lambda>a. ex_defaults), nextAddr = 0,
      communicator = \<lparr>newRequests = [], lastTicketId = 0\<rparr>,
      responses = [], toSend = [], toSendByOpID = Map.empty,
      received = [], receivedByOpID = Map.empty\<rparr>"

text \<open>
  The dispatcher after one \<^verbatim>\<open>asyncRequest\<close> to shard \<open>S1\<close> with transaction ids \<open>ctx\<close> and
  \<open>42\<close>: the request has ticket 1 and its record, at address 0, is tracked.
\<close>

definition ex_submitted :: ClusterComm where
  "ex_submitted = snd (asyncRequest ex_env 1 False ex_cc ''ctx'' 42 ''shard:S1'' GET ''/x''
                         None Map.empty 5 False (- 1))"

text \<open>
  A fan-out of one request, started at time 0 with a total timeout of 5 seconds, after its
  sending loop has run once; and the record of that request as \<^verbatim>\<open>wait\<close> returns it once
  the transport has reported that no connection could be made.
\<close>

definition ex_request :: ClusterCommRequest where
  "ex_request =
     \<lparr>rq_destination = ''shard:S1'', rq_requestType = GET, rq_path = ''/x'', rq_body = None,
      rq_headerFields = None, rq_result = ex_defaults, rq_done = False\<rparr>"

definition ex_sent :: "Env \<Rightarrow> PerformState" where
  "ex_sent env = send_due env 0 0 5 42 (\<lambda>i. 0) (perform_init [ex_request] 0 ex_cc)"

definition ex_unavailable :: ClusterCommResult where
  "ex_unavailable = ex_defaults\<lparr>coordTransactionID := 42, operationID := 1, shardID := ''S1'',
       serverID := ''srvA'', endpoint := ''tcp://h:8529'',
       status := CL_COMM_BACKEND_UNAVAILABLE\<rparr>"


section \<open>Properties\<close>

subsection \<open>Auxiliary facts\<close>

lemma take_literal_prefix: "n = length p \<Longrightarrow> take n s = p \<longleftrightarrow> prefix p s"
  by (metis append_take_drop_id prefixI prefix_def append_eq_conv_conj)

lemma ClusterCommResult_new_strings [simp]:
  "endpoint (ClusterCommResult_new env) = ''''"
  "errorMessage (ClusterCommResult_new env) = ''''"
  "shardID (ClusterCommResult_new env) = ''''"
  "serverID (ClusterCommResult_new env) = ''''"
  "clientTransactionID (ClusterCommResult_new env) = ''''"
  by (simp_all add: ClusterCommResult_new_def)

lemma setDestination_unresolved_status:
  assumes "endpoint r = ''''"
    and "endpoint (fst (setDestination env dest b r)) = ''''"
  shows "status (fst (setDestination env dest b r)) = CL_COMM_BACKEND_UNAVAILABLE"
  using assms
  by (auto simp: setDestination_def Let_def split: if_splits list.splits)

lemma prepareRequest_unresolved:
  assumes "endpoint (fst (prepareRequest env destination reqtype body headerFields)) = ''''"
  shows "snd (prepareRequest env destination reqtype body headerFields) = None"
    and "status (fst (prepareRequest env destination reqtype body headerFields)) =
           CL_COMM_BACKEND_UNAVAILABLE"
    and "fst (prepareRequest env destination reqtype body headerFields) =
           fst (setDestination env destination (logConnectionErrors env) (ClusterCommResult_new env))"
proof -
  let ?r0 = "fst (setDestination env destination (logConnectionErrors env) (ClusterCommResult_new env))"
  have e: "endpoint ?r0 = ''''"
  proof (rule ccontr)
    assume "endpoint ?r0 \<noteq> ''''"
    then have "endpoint (fst (prepareRequest env destination reqtype body headerFields)) = endpoint ?r0"
      by (simp add: prepareRequest_def Let_def)
    with assms \<open>endpoint ?r0 \<noteq> ''''\<close> show False by simp
  qed
  then show p: "fst (prepareRequest env destination reqtype body headerFields) = ?r0"
    and "snd (prepareRequest env destination reqtype body headerFields) = None"
    by (simp_all add: prepareRequest_def Let_def)
  from e have "status ?r0 = CL_COMM_BACKEND_UNAVAILABLE"
    by (intro setDestination_unresolved_status) simp_all
  with p show "status (fst (prepareRequest env destination reqtype body headerFields)) =
           CL_COMM_BACKEND_UNAVAILABLE" by simp
qed

lemma prepareRequest_resolved:
  assumes "endpoint (fst (prepareRequest env destination reqtype body headerFields)) \<noteq> ''''"
  shows "\<exists>rq. snd (prepareRequest env destination reqtype body headerFields) = Some rq \<and>
           hr_type rq = reqtype \<and>
           hr_body rq = (case body of None \<Rightarrow> '''' | Some b \<Rightarrow> b) \<and>
           hr_headers rq ''Authorization'' = Some (getAuthentication env) \<and>
           hr_headers rq HLCHeader = Some (hlcTimeStamp env) \<and>
           (\<forall>h. h \<notin> {''Authorization'', HLCHeader, ''X-Arango-Nolock''} \<longrightarrow>
                hr_headers rq h = headerFields h)"
proof -
  let ?r0 = "fst (setDestination env destination (logConnectionErrors env) (ClusterCommResult_new env))"
  have e: "endpoint ?r0 \<noteq> ''''"
  proof
    assume "endpoint ?r0 = ''''"
    then have "endpoint (fst (prepareRequest env destination reqtype body headerFields)) = ''''"
      by (simp add: prepareRequest_def Let_def)
    with assms show False by simp
  qed
  then show ?thesis
    by (simp add: prepareRequest_def Let_def HLCHeader_def split: option.split)
qed

lemma addRequest_ticket_nonzero: "fst (addRequest c dest req cbs opt) \<noteq> 0"
  by (simp add: addRequest_def Let_def)

lemma asyncRequest_ticket:
  "fst (asyncRequest env now hasCallback s clientTxID coordTxID destination reqtype path body
          headerFields timeout singleRequest initTimeout) =
   (if lastTicketId (communicator s) + 1 = 0 then 1 else lastTicketId (communicator s) + 1)"
  by (simp add: asyncRequest_def addRequest_def Let_def)

lemma asyncRequest_submission:
  "newRequests (communicator (snd (asyncRequest env now hasCallback s clientTxID coordTxID
      destination reqtype path body headerFields timeout singleRequest initTimeout))) =
   newRequests (communicator s) @
     [\<lparr>nr_destination =
         createCommunicatorDestination
           (endpoint (fst (prepareRequest env destination reqtype body headerFields))) path,
       nr_request =
         (case snd (prepareRequest env destination reqtype body headerFields) of
            None \<Rightarrow> \<lparr>hr_type = reqtype, hr_body = '''', hr_headers = Map.empty\<rparr>
          | Some rq \<Rightarrow> rq),
       nr_callbacks =
         (if hasCallback then CallerCallback (nextAddr s) (logConnectionErrors env)
          else BroadcastReceived (nextAddr s) (logConnectionErrors env)),
       nr_options = (optionDefaults env)\<lparr>connectionTimeout := initTimeout,
                                          requestTimeout := timeout\<rparr>,
       nr_ticketId = fst (asyncRequest env now hasCallback s clientTxID coordTxID
                            destination reqtype path body headerFields timeout singleRequest
                            initTimeout)\<rparr>]"
  by (simp add: asyncRequest_def addRequest_def Let_def split: option.split)

lemma asyncRequest_tracked:
  "responses (snd (asyncRequest env now hasCallback s clientTxID coordTxID
      destination reqtype path body headerFields timeout singleRequest initTimeout)) =
   emplace (fst (asyncRequest env now hasCallback s clientTxID coordTxID
      destination reqtype path body headerFields timeout singleRequest initTimeout))
     \<lparr>timestamp = now, result = nextAddr s\<rparr> (responses s)"
  by (simp add: asyncRequest_def addRequest_def Let_def)

lemma asyncRequest_record:
  "heap (snd (asyncRequest env now hasCallback s clientTxID coordTxID
      destination reqtype path body headerFields timeout singleRequest initTimeout)) (nextAddr s) =
   (fst (prepareRequest env destination reqtype body headerFields))
     \<lparr>clientTransactionID := clientTxID, coordTransactionID := coordTxID,
      single := singleRequest,
      operationID := fst (asyncRequest env now hasCallback s clientTxID coordTxID
      destination reqtype path body headerFields timeout singleRequest initTimeout),
      status := CL_COMM_SUBMITTED\<rparr>"
  by (simp add: asyncRequest_def addRequest_def Let_def)

lemma map_of_emplace_fresh: "map_of rs k = None \<Longrightarrow> map_of (emplace k v rs) k = Some v"
  by (simp add: emplace_def map_add_def)

lemma ex_submitted_eval:
  "responses ex_submitted = [(1, \<lparr>timestamp = 1, result = 0\<rparr>)]"
  "heap ex_submitted 0 =
     ex_defaults\<lparr>clientTransactionID := ''ctx'', coordTransactionID := 42, operationID := 1,
       shardID := ''S1'', serverID := ''srvA'', endpoint := ''tcp://h:8529'',
       single := False, status := CL_COMM_SUBMITTED\<rparr>"
  "toSend ex_submitted = []" "received ex_submitted = []"
  by (simp_all add: ex_submitted_def asyncRequest_def addRequest_def Let_def ex_cc_def
      emplace_def prepareRequest_def setDestination_def ex_env_def ClusterCommResult_new_def
      ex_defaults_def)

subsection \<open>Asynchronous requests\<close>

text \<open>
  Claim C1, as amended.  When the destination of an \<^verbatim>\<open>asyncRequest\<close> fails to resolve
  (the prepared record has an empty endpoint) and the ticket the transport hands out is
  not tracked yet, resolution yields a record in status BackendUnavailable and no
  prepared request; \<^verbatim>\<open>asyncRequest\<close> then performs exactly one submission to the
  transport, of a fake request with empty body and no headers whose destination URL is the
  path alone, takes the transport's non-zero ticket as the operation id of the record and
  tracks the record under that ticket, with the caller's transaction ids and \<open>single\<close>
  flag.
\<close>

theorem asyncRequest_unresolved:
  assumes unresolved:
      "endpoint (fst (prepareRequest env destination reqtype body headerFields)) = ''''"
    and fresh:
      "map_of (responses s)
         (fst (asyncRequest env now hasCallback s clientTxID coordTxID destination reqtype
                 path body headerFields timeout singleRequest initTimeout)) = None"
  shows
    "status (fst (prepareRequest env destination reqtype body headerFields)) =
       CL_COMM_BACKEND_UNAVAILABLE \<and>
     snd (prepareRequest env destination reqtype body headerFields) = None \<and>
     (let out = asyncRequest env now hasCallback s clientTxID coordTxID destination reqtype
                  path body headerFields timeout singleRequest initTimeout;
          t = fst out; s' = snd out
      in t \<noteq> 0 \<and>
         newRequests (communicator s') =
           newRequests (communicator s) @
             [\<lparr>nr_destination = path,
               nr_request = \<lparr>hr_type = reqtype, hr_body = '''', hr_headers = Map.empty\<rparr>,
               nr_callbacks =
                 (if hasCallback then CallerCallback (nextAddr s) (logConnectionErrors env)
                  else BroadcastReceived (nextAddr s) (logConnectionErrors env)),
               nr_options = (optionDefaults env)\<lparr>connectionTimeout := initTimeout,
                                                  requestTimeout := timeout\<rparr>,
               nr_ticketId = t\<rparr>] \<and>
         map_of (responses s') t = Some \<lparr>timestamp = now, result = nextAddr s\<rparr> \<and>
         operationID (enquire env s' t) = t \<and>
         endpoint (enquire env s' t) = '''' \<and>
         clientTransactionID (enquire env s' t) = clientTxID \<and>
         coordTransactionID (enquire env s' t) = coordTxID \<and>
         single (enquire env s' t) = singleRequest)"
proof -
  let ?out = "asyncRequest env now hasCallback s clientTxID coordTxID destination reqtype
                path body headerFields timeout singleRequest initTimeout"
  note p = prepareRequest_unresolved[OF unresolved]
  have t0: "fst ?out \<noteq> 0"
    by (simp add: asyncRequest_ticket)
  have sub: "newRequests (communicator (snd ?out)) =
           newRequests (communicator s) @
             [\<lparr>nr_destination = path,
               nr_request = \<lparr>hr_type = reqtype, hr_body = '''', hr_headers = Map.empty\<rparr>,
               nr_callbacks =
                 (if hasCallback then CallerCallback (nextAddr s) (logConnectionErrors env)
                  else BroadcastReceived (nextAddr s) (logConnectionErrors env)),
               nr_options = (optionDefaults env)\<lparr>connectionTimeout := initTimeout,
                                                  requestTimeout := timeout\<rparr>,
               nr_ticketId = fst ?out\<rparr>]"
    unfolding asyncRequest_submission
    by (simp add: p(1) unresolved createCommunicatorDestination_def)
  have tr: "map_of (responses (snd ?out)) (fst ?out) = Some \<lparr>timestamp = now, result = nextAddr s\<rparr>"
    unfolding asyncRequest_tracked using fresh by (rule map_of_emplace_fresh)
  have enq: "enquire env (snd ?out) (fst ?out) = heap (snd ?out) (nextAddr s)"
    by (simp add: enquire_def tr)
  have fields: "operationID (enquire env (snd ?out) (fst ?out)) = fst ?out"
    "endpoint (enquire env (snd ?out) (fst ?out)) = ''''"
    "clientTransactionID (enquire env (snd ?out) (fst ?out)) = clientTxID"
    "coordTransactionID (enquire env (snd ?out) (fst ?out)) = coordTxID"
    "single (enquire env (snd ?out) (fst ?out)) = singleRequest"
    unfolding enq asyncRequest_record by (simp_all add: unresolved)
  show ?thesis
    unfolding Let_def using p(1,2) t0 sub tr fields by simp
qed

text \<open>
  The amended claim on the scenario of the unknown shard \<open>S2\<close>.
\<close>

theorem asyncRequest_unresolved_witness:
  "endpoint (fst (prepareRequest ex_env ''shard:S2'' GET None Map.empty)) = '''' \<and>
   map_of (responses ex_cc)
     (fst (asyncRequest ex_env 1 False ex_cc ''ctx'' 42 ''shard:S2'' GET ''/x'' None Map.empty
             5 False (-1))) = None \<and>
   status (fst (prepareRequest ex_env ''shard:S2'' GET None Map.empty)) =
       CL_COMM_BACKEND_UNAVAILABLE \<and>
   snd (prepareRequest ex_env ''shard:S2'' GET None Map.empty) = None \<and>
   (let out = asyncRequest ex_env 1 False ex_cc ''ctx'' 42 ''shard:S2'' GET ''/x'' None
                Map.empty 5 False (-1);
        t = fst out; s' = snd out
    in t \<noteq> 0 \<and>
       newRequests (communicator s') =
         newRequests (communicator ex_cc) @
           [\<lparr>nr_destination = ''/x'',
             nr_request = \<lparr>hr_type = GET, hr_body = '''', hr_headers = Map.empty\<rparr>,
             nr_callbacks =
               (if False then CallerCallback (nextAddr ex_cc) (logConnectionErrors ex_env)
                else BroadcastReceived (nextAddr ex_cc) (logConnectionErrors ex_env)),
             nr_options = (optionDefaults ex_env)\<lparr>connectionTimeout := - 1,
                                                   requestTimeout := 5\<rparr>,
             nr_ticketId = t\<rparr>] \<and>
       map_of (responses s') t = Some \<lparr>timestamp = 1, result = nextAddr ex_cc\<rparr> \<and>
       operationID (enquire ex_env s' t) = t \<and>
       endpoint (enquire ex_env s' t) = '''' \<and>
       clientTransactionID (enquire ex_env s' t) = ''ctx'' \<and>
       coordTransactionID (enquire ex_env s' t) = 42 \<and>
       single (enquire ex_env s' t) = False)"
proof -
  have h1: "endpoint (fst (prepareRequest ex_env ''shard:S2'' GET None Map.empty)) = ''''"
    by (simp add: prepareRequest_def setDestination_def ex_env_def Let_def)
  have h2: "map_of (responses ex_cc)
     (fst (asyncRequest ex_env 1 False ex_cc ''ctx'' 42 ''shard:S2'' GET ''/x'' None Map.empty
             5 False (-1))) = None"
    by (simp add: ex_cc_def)
  show ?thesis
    using h1 h2 asyncRequest_unresolved[OF h1 h2] by simp
qed

text \<open>
  Claim C1 as stated fails on the unknown shard \<open>S2\<close>: the transport, empty before the
  call, has received a submission for the URL \<open>/x\<close>, and the tracked record is in status
  Submitted when \<^verbatim>\<open>asyncRequest\<close> returns, not in BackendUnavailable.
\<close>

theorem asyncRequest_unresolved_counterexample:
  "endpoint (fst (prepareRequest ex_env ''shard:S2'' GET None Map.empty)) = '''' \<and>
   newRequests (communicator ex_cc) = [] \<and>
   map nr_destination (newRequests (communicator (snd
     (asyncRequest ex_env 1 False ex_cc ''ctx'' 42 ''shard:S2'' GET ''/x'' None Map.empty
        5 False (-1))))) = [''/x''] \<and>
   status (enquire ex_env
     (snd (asyncRequest ex_env 1 False ex_cc ''ctx'' 42 ''shard:S2'' GET ''/x'' None Map.empty
        5 False (-1)))
     (fst (asyncRequest ex_env 1 False ex_cc ''ctx'' 42 ''shard:S2'' GET ''/x'' None Map.empty
        5 False (-1)))) = CL_COMM_SUBMITTED"
proof -
  have h1: "endpoint (fst (prepareRequest ex_env ''shard:S2'' GET None Map.empty)) = ''''"
    by (simp add: prepareRequest_def setDestination_def ex_env_def Let_def)
  have t: "fst (asyncRequest ex_env 1 False ex_cc ''ctx'' 42 ''shard:S2'' GET ''/x'' None Map.empty
        5 False (-1)) = 1"
    by (simp add: asyncRequest_ticket ex_cc_def)
  have e: "newRequests (communicator ex_cc) = []" "responses ex_cc = []" "nextAddr ex_cc = 0"
    by (simp_all add: ex_cc_def)
  have d: "map nr_destination (newRequests (communicator (snd
     (asyncRequest ex_env 1 False ex_cc ''ctx'' 42 ''shard:S2'' GET ''/x'' None Map.empty
        5 False (-1))))) = [''/x'']"
    unfolding asyncRequest_submission by (simp add: e h1 createCommunicatorDestination_def)
  have s: "status (enquire ex_env
     (snd (asyncRequest ex_env 1 False ex_cc ''ctx'' 42 ''shard:S2'' GET ''/x'' None Map.empty
        5 False (-1))) 1) = CL_COMM_SUBMITTED"
  proof -
    have "status (heap (snd
       (asyncRequest ex_env 1 False ex_cc ''ctx'' 42 ''shard:S2'' GET ''/x'' None Map.empty
          5 False (-1))) (nextAddr ex_cc)) = CL_COMM_SUBMITTED"
      by (simp add: asyncRequest_record)
    then show ?thesis
      unfolding enquire_def asyncRequest_tracked t by (simp add: e emplace_def)
  qed
  show ?thesis using h1 e(1) d s unfolding t by simp
qed

text \<open>
  Claim C2, as amended.  For an \<^verbatim>\<open>asyncRequest\<close> with a resolved destination, whatever
  \<open>singleRequest\<close> is, the request submitted to the transport is the one
  \<^verbatim>\<open>prepareRequest\<close> built: it carries \<open>Authorization\<close> and the HLC header, and every
  header other than these two and \<open>X-Arango-Nolock\<close> is exactly as the caller supplied it.
  In particular \<open>X-Arango-Async\<close> and \<open>X-Arango-Coordinator\<close> are not added: they are
  present only if the caller passed them, with the caller's values.
\<close>

theorem asyncRequest_headers:
  assumes "endpoint (fst (prepareRequest env destination reqtype body headerFields)) \<noteq> ''''"
  shows "\<exists>nr rq.
           newRequests (communicator (snd (asyncRequest env now hasCallback s clientTxID
             coordTxID destination reqtype path body headerFields timeout singleRequest
             initTimeout))) = newRequests (communicator s) @ [nr] \<and>
           snd (prepareRequest env destination reqtype body headerFields) = Some rq \<and>
           nr_request nr = rq \<and>
           hr_headers rq ''X-Arango-Async'' = headerFields ''X-Arango-Async'' \<and>
           hr_headers rq ''X-Arango-Coordinator'' = headerFields ''X-Arango-Coordinator'' \<and>
           hr_headers rq ''Authorization'' = Some (getAuthentication env) \<and>
           hr_headers rq HLCHeader = Some (hlcTimeStamp env) \<and>
           (\<forall>h. h \<notin> {''Authorization'', HLCHeader, ''X-Arango-Nolock''} \<longrightarrow>
                hr_headers rq h = headerFields h)"
proof -
  from prepareRequest_resolved[OF assms] obtain rq where
    rq: "snd (prepareRequest env destination reqtype body headerFields) = Some rq"
      "hr_headers rq ''Authorization'' = Some (getAuthentication env)"
      "hr_headers rq HLCHeader = Some (hlcTimeStamp env)"
      "\<forall>h. h \<notin> {''Authorization'', HLCHeader, ''X-Arango-Nolock''} \<longrightarrow>
                hr_headers rq h = headerFields h"
    by blast
  from rq(4) have a: "hr_headers rq ''X-Arango-Async'' = headerFields ''X-Arango-Async''"
    "hr_headers rq ''X-Arango-Coordinator'' = headerFields ''X-Arango-Coordinator''"
    by (simp_all add: HLCHeader_def)
  show ?thesis
    unfolding asyncRequest_submission using rq a by simp
qed

text \<open>
  The amended claim on the scenario of shard \<open>S1\<close> with one caller header.
\<close>

theorem asyncRequest_headers_witness:
  "endpoint (fst (prepareRequest ex_env ''shard:S1'' GET None [''X-Trace'' \<mapsto> ''t1''])) \<noteq> '''' \<and>
   (\<exists>nr rq.
           newRequests (communicator (snd (asyncRequest ex_env 1 False ex_cc ''ctx''
             42 ''shard:S1'' GET ''/x'' None [''X-Trace'' \<mapsto> ''t1''] 5 False
             (- 1)))) = newRequests (communicator ex_cc) @ [nr] \<and>
           snd (prepareRequest ex_env ''shard:S1'' GET None [''X-Trace'' \<mapsto> ''t1'']) = Some rq \<and>
           nr_request nr = rq \<and>
           hr_headers rq ''X-Arango-Async'' = None \<and>
           hr_headers rq ''X-Arango-Coordinator'' = None \<and>
           hr_headers rq ''Authorization'' = Some ''bearer'' \<and>
           hr_headers rq HLCHeader = Some ''_Zk3'' \<and>
           hr_headers rq ''X-Trace'' = Some ''t1'')"
proof -
  have h: "endpoint (fst (prepareRequest ex_env ''shard:S1'' GET None [''X-Trace'' \<mapsto> ''t1''])) \<noteq> ''''"
    by (simp add: prepareRequest_def setDestination_def ex_env_def Let_def)
  have env: "getAuthentication ex_env = ''bearer''" "hlcTimeStamp ex_env = ''_Zk3''"
    by (simp_all add: ex_env_def)
  from asyncRequest_headers[OF h, of 1 False ex_cc "''ctx''" 42 "''/x''" 5 False "- 1"]
  obtain nr rq where *:
    "newRequests (communicator (snd (asyncRequest ex_env 1 False ex_cc ''ctx''
             42 ''shard:S1'' GET ''/x'' None [''X-Trace'' \<mapsto> ''t1''] 5 False
             (- 1)))) = newRequests (communicator ex_cc) @ [nr]"
    "snd (prepareRequest ex_env ''shard:S1'' GET None [''X-Trace'' \<mapsto> ''t1'']) = Some rq"
    "nr_request nr = rq"
    "hr_headers rq ''X-Arango-Async'' = [''X-Trace'' \<mapsto> ''t1''] ''X-Arango-Async''"
    "hr_headers rq ''X-Arango-Coordinator'' = [''X-Trace'' \<mapsto> ''t1''] ''X-Arango-Coordinator''"
    "hr_headers rq ''Authorization'' = Some (getAuthentication ex_env)"
    "hr_headers rq HLCHeader = Some (hlcTimeStamp ex_env)"
    "\<forall>h. h \<notin> {''Authorization'', HLCHeader, ''X-Arango-Nolock''} \<longrightarrow>
                hr_headers rq h = [''X-Trace'' \<mapsto> ''t1''] h"
    by blast
  from *(8) have "hr_headers rq ''X-Trace'' = Some ''t1''"
    by (simp add: HLCHeader_def)
  with h * env show ?thesis by simp
qed

text \<open>
  Claim C2 as stated fails for shard \<open>S1\<close> with \<open>singleRequest = false\<close> and no caller
  headers: the request goes out to \<open>http://h:8529/x\<close> with neither \<open>X-Arango-Async\<close> nor
  \<open>X-Arango-Coordinator\<close>, so there is no coordinator header to parse.
\<close>

theorem asyncRequest_headers_counterexample:
  "endpoint (fst (prepareRequest ex_env ''shard:S1'' GET None Map.empty)) = ''tcp://h:8529'' \<and>
   length (newRequests (communicator (snd (asyncRequest ex_env 1 False ex_cc ''ctx'' 42
        ''shard:S1'' GET ''/x'' None Map.empty 5 False (- 1))))) = 1 \<and>
   nr_destination (hd (newRequests (communicator (snd (asyncRequest ex_env 1 False ex_cc
        ''ctx'' 42 ''shard:S1'' GET ''/x'' None Map.empty 5 False (- 1)))))) =
     ''http://h:8529/x'' \<and>
   hr_headers (nr_request (hd (newRequests (communicator (snd (asyncRequest ex_env 1 False
        ex_cc ''ctx'' 42 ''shard:S1'' GET ''/x'' None Map.empty 5 False (- 1)))))))
     ''X-Arango-Async'' = None \<and>
   hr_headers (nr_request (hd (newRequests (communicator (snd (asyncRequest ex_env 1 False
        ex_cc ''ctx'' 42 ''shard:S1'' GET ''/x'' None Map.empty 5 False (- 1)))))))
     ''X-Arango-Coordinator'' = None"
proof -
  have p: "prepareRequest ex_env ''shard:S1'' GET None Map.empty =
      (ex_defaults\<lparr>shardID := ''S1'', serverID := ''srvA'', endpoint := ''tcp://h:8529'',
                   status := CL_COMM_SUBMITTED\<rparr>,
       Some \<lparr>hr_type = GET, hr_body = [],
             hr_headers = [''Authorization'' \<mapsto> ''bearer'', HLCHeader \<mapsto> ''_Zk3'']\<rparr>)"
    by (simp add: prepareRequest_def setDestination_def ex_env_def Let_def
        ClusterCommResult_new_def ex_defaults_def)
  have e: "newRequests (communicator ex_cc) = []"
    by (simp add: ex_cc_def)
  show ?thesis
    unfolding asyncRequest_submission p
    by (simp add: e createCommunicatorDestination_def HLCHeader_def)
qed

text \<open>
  The transport options of every \<^verbatim>\<open>asyncRequest\<close>: the connection timeout is
  \<open>initTimeout\<close> as passed, whatever its sign.
\<close>

lemma asyncRequest_options:
  "map nr_options (newRequests (communicator (snd (asyncRequest env now hasCallback s clientTxID
      coordTxID destination reqtype path body headerFields timeout singleRequest initTimeout)))) =
   map nr_options (newRequests (communicator s)) @
     [\<lparr>connectionTimeout = initTimeout, requestTimeout = timeout\<rparr>]"
  unfolding asyncRequest_submission by simp

text \<open>
  Claim C7.  The connection timeout should be \<open>timeout\<close> when \<open>initTimeout \<le> 0\<close>.  For
  \<open>initTimeout = -1\<close> (the default) and \<open>timeout = 5\<close> the options submitted to the
  transport have the connection timeout \<open>-1\<close>, not \<open>5\<close>; the request timeout is \<open>5\<close> as
  claimed.
\<close>

theorem asyncRequest_negative_initTimeout:
  "map nr_options (newRequests (communicator (snd (asyncRequest ex_env 1 False ex_cc ''ctx'' 42
        ''shard:S1'' GET ''/x'' None Map.empty 5 False (- 1))))) =
     [\<lparr>connectionTimeout = - 1, requestTimeout = 5\<rparr>]"
  unfolding asyncRequest_submission by (simp add: ex_cc_def)

subsection \<open>Destination resolver\<close>

text \<open>
  For every shard without a responsible server, \<^verbatim>\<open>setDestination\<close> changes the shard id,
  the server id and the status of the record and nothing else; the text goes to the log.
\<close>

lemma setDestination_unknown_shard:
  assumes "getResponsibleServer env X = []"
  shows "setDestination env (''shard:'' @ X) b r =
           (r\<lparr>shardID := X, serverID := '''', status := CL_COMM_BACKEND_UNAVAILABLE\<rparr>,
            [(if b then ERR else INFO,
              ''cannot find responsible server for shard '' @ quote @ X @ quote)])"
  using assms by (simp add: setDestination_def)

text \<open>
  Claim C5.  For a destination \<open>shard:X\<close> whose list of responsible servers is empty the
  record should be BackendUnavailable with an error message that contains
  \<^verbatim>\<open>cannot find responsible server for shard 'X'\<close>.  In the scenario where shard \<open>S2\<close> is
  unknown the status is BackendUnavailable, but \<^verbatim>\<open>setDestination\<close> writes the text to the log
  only: the error message of the record stays empty, unlike in the two other failing
  branches, which assign \<^verbatim>\<open>errorMessage\<close>.
\<close>

theorem setDestination_unknown_shard_message:
  "status (fst (setDestination ex_env ''shard:S2'' False (ClusterCommResult_new ex_env))) =
     CL_COMM_BACKEND_UNAVAILABLE \<and>
   errorMessage (fst (setDestination ex_env ''shard:S2'' False (ClusterCommResult_new ex_env))) = '''' \<and>
   \<not> sublist (''cannot find responsible server for shard '' @ quote @ ''S2'' @ quote)
       (errorMessage (fst (setDestination ex_env ''shard:S2'' False (ClusterCommResult_new ex_env)))) \<and>
   snd (setDestination ex_env ''shard:S2'' False (ClusterCommResult_new ex_env)) =
     [(INFO, ''cannot find responsible server for shard '' @ quote @ ''S2'' @ quote)]"
  by (simp add: setDestination_def ex_env_def Let_def quote_def)

subsection \<open>Request preparer\<close>

text \<open>
  Claim C10.  \<^verbatim>\<open>createCommunicatorDestination\<close> maps an endpoint \<open>tcp://rest\<close> to
  \<open>http://rest\<close> followed by the path and \<open>ssl://rest\<close> to \<open>https://rest\<close> followed by the
  path; for an endpoint with neither prefix, the empty endpoint of a failed resolution
  included, the endpoint is discarded and the URL is the path alone.
\<close>

theorem createCommunicatorDestination_schemes:
  "createCommunicatorDestination (''tcp://'' @ rest) path = ''http://'' @ rest @ path \<and>
   createCommunicatorDestination (''ssl://'' @ rest) path = ''https://'' @ rest @ path \<and>
   (\<not> prefix ''tcp://'' endpt \<and> \<not> prefix ''ssl://'' endpt \<longrightarrow>
      createCommunicatorDestination endpt path = path)"
proof -
  have "take 6 endpt = ''tcp://'' \<longleftrightarrow> prefix ''tcp://'' endpt"
    by (rule take_literal_prefix) simp
  moreover have "take 6 endpt = ''ssl://'' \<longleftrightarrow> prefix ''ssl://'' endpt"
    by (rule take_literal_prefix) simp
  ultimately show ?thesis
    by (simp add: createCommunicatorDestination_def)
qed

text \<open>
  The three cases on the scenarios' endpoints and on the empty endpoint.
\<close>

theorem createCommunicatorDestination_schemes_witness:
  "createCommunicatorDestination ''tcp://h:8529'' ''/x'' = ''http://h:8529/x'' \<and>
   createCommunicatorDestination ''ssl://h:8530'' ''/x'' = ''https://h:8530/x'' \<and>
   \<not> prefix ''tcp://'' '''' \<and> \<not> prefix ''ssl://'' '''' \<and>
   createCommunicatorDestination '''' ''/x'' = ''/x''"
  using createCommunicatorDestination_schemes[of "''h:8529''" "''/x''" "''''"]
    createCommunicatorDestination_schemes[of "''h:8530''" "''/x''" "''''"]
  by simp

subsection \<open>Synchronous requests\<close>

text \<open>
  Claim C9.  When the destination of a \<^verbatim>\<open>syncRequest\<close> fails to resolve (the prepared
  record has an empty endpoint), the call returns for every fuel and every behaviour of
  the transport, the transport is unchanged (nothing was submitted), no wait on the
  condition variable was made, and the returned record has \<open>single\<close> set and the status
  BackendUnavailable that resolution produced.
\<close>

theorem syncRequest_unresolved:
  assumes "endpoint (fst (prepareRequest env destination reqtype (Some body) headerFields)) = ''''"
  shows "\<exists>r. syncRequest env fuel ev comm clientTxID coordTxID destination reqtype path body
               headerFields timeout = Some (r, comm, 0) \<and>
             single r \<and> status r = CL_COMM_BACKEND_UNAVAILABLE \<and>
             r = (fst (prepareRequest env destination reqtype (Some body) headerFields))\<lparr>single := True\<rparr>"
  using prepareRequest_unresolved(1,2)[OF assms]
  by (simp add: syncRequest_def Let_def)

text \<open>
  The claim on the scenario of the unknown shard \<open>S2\<close>, with no fuel at all.
\<close>

theorem syncRequest_unresolved_witness:
  "endpoint (fst (prepareRequest ex_env ''shard:S2'' GET (Some ''{}'') Map.empty)) = '''' \<and>
   (\<exists>r. syncRequest ex_env 0 (\<lambda>k. None) (communicator ex_cc) '''' 0 ''shard:S2'' GET ''/x'' ''{}''
               Map.empty 5 = Some (r, communicator ex_cc, 0) \<and>
             single r \<and> status r = CL_COMM_BACKEND_UNAVAILABLE \<and>
             r = (fst (prepareRequest ex_env ''shard:S2'' GET (Some ''{}'') Map.empty))\<lparr>single := True\<rparr>)"
proof -
  have h: "endpoint (fst (prepareRequest ex_env ''shard:S2'' GET (Some ''{}'') Map.empty)) = ''''"
    by (simp add: prepareRequest_def setDestination_def ex_env_def Let_def)
  show ?thesis
    using h syncRequest_unresolved[OF h, of 0 "\<lambda>k. None" "communicator ex_cc" "''''" 0 "''/x''" 5]
    by simp
qed

subsection \<open>Waiting\<close>

lemma wait_loop_stays_submitted:
  assumes "\<And>k s. status (heap s a) = CL_COMM_SUBMITTED
             \<Longrightarrow> status (heap (others k s) a) = CL_COMM_SUBMITTED"
    and "status (heap s a) = CL_COMM_SUBMITTED"
  shows "wait_loop fuel others k a s = None"
  using assms(2)
proof (induction fuel arbitrary: k s)
  case 0
  then show ?case by (simp add: wait_loop.simps[of 0])
next
  case (Suc fuel)
  from Suc.prems have "status (heap (others k s) a) = CL_COMM_SUBMITTED"
    by (rule assms(1))
  then have "wait_loop fuel others (Suc k) a (others k s) = None"
    by (rule Suc.IH)
  with Suc.prems show ?case by (simp add: wait_loop.simps[of "Suc fuel"])
qed

lemma wait_loop_returns:
  "status (heap s a) \<noteq> CL_COMM_SUBMITTED \<Longrightarrow> wait_loop fuel others k a s = Some (k, s)"
  by (simp add: wait_loop.simps[of fuel])

lemma wait_loop_step:
  "status (heap s a) = CL_COMM_SUBMITTED \<Longrightarrow>
   wait_loop (Suc fuel) others k a s = wait_loop fuel others (Suc k) a (others k s)"
  by (simp add: wait_loop.simps[of "Suc fuel"])

text \<open>
  As long as no other thread takes the located record out of status Submitted,
  \<^verbatim>\<open>wait\<close> does not return, whatever the timeout.
\<close>

lemma wait_never_returns:
  assumes "wait_locate s clientTxID coordTxID ticketId shID = Some (k, response)"
    and "status (heap s (result response)) = CL_COMM_SUBMITTED"
    and "\<And>n s'. status (heap s' (result response)) = CL_COMM_SUBMITTED
           \<Longrightarrow> status (heap (others n s') (result response)) = CL_COMM_SUBMITTED"
  shows "wait env fuel others s clientTxID coordTxID ticketId shID timeout = None"
proof -
  have "wait_loop fuel others 0 (result response) s = None"
    using assms(3,2) by (rule wait_loop_stays_submitted)
  then show ?thesis
    by (simp add: wait_def assms(1))
qed

text \<open>
  Claim C3.  With a positive timeout and a record that stays Submitted, \<^verbatim>\<open>wait\<close> should
  give up after the timeout and return a record in status Timeout.  For the tracked
  ticket 1, whose record is Submitted, and other threads that never touch the state,
  \<^verbatim>\<open>wait\<close> has not returned after any number of 60-second waits, whatever the timeout:
  the loop tests the status only and never reads \<open>timeout\<close>.
\<close>

theorem wait_ignores_timeout:
  "status (enquire ex_env ex_submitted 1) = CL_COMM_SUBMITTED \<and>
   (\<forall>timeout fuel. wait ex_env fuel (\<lambda>k s. s) ex_submitted '''' 0 1 '''' timeout = None)"
proof -
  have l: "wait_locate ex_submitted '''' 0 1 '''' = Some (1, \<lparr>timestamp = 1, result = 0\<rparr>)"
    by (simp add: wait_locate_def ex_submitted_eval)
  have s: "status (heap ex_submitted 0) = CL_COMM_SUBMITTED"
    by (simp add: ex_submitted_eval)
  have n: "wait_loop fuel (\<lambda>k s. s) k 0 ex_submitted = None" for fuel k
    by (rule wait_loop_stays_submitted) (simp_all add: s)
  have "wait ex_env fuel (\<lambda>k s. s) ex_submitted '''' 0 1 '''' timeout = None" for timeout fuel
    unfolding wait_def l by (simp add: n)
  moreover have "status (enquire ex_env ex_submitted 1) = CL_COMM_SUBMITTED"
    by (simp add: enquire_def ex_submitted_eval)
  ultimately show ?thesis by simp
qed

text \<open>
  The model of \<^verbatim>\<open>wait\<close> does return once a callback has stored a response: after one
  wait the record comes back in status Received and its entry is erased.
\<close>

lemma wait_returns_after_callback:
  "wait ex_env 1
     (\<lambda>k s. s\<lparr>heap := (heap s)(0 := fromResponse ex_env
                 \<lparr>responseCode = 200, respBody = ''ok'', respHeaders = Map.empty\<rparr> (heap s 0))\<rparr>)
     ex_submitted '''' 0 1 '''' 5 =
   Some ((heap ex_submitted 0)\<lparr>status := CL_COMM_RECEIVED, answer_code := 200,
           answer := Some \<lparr>responseCode = 200, respBody = ''ok'', respHeaders = Map.empty\<rparr>\<rparr>,
         ex_submitted\<lparr>heap := (heap ex_submitted)(0 := fromResponse ex_env
                 \<lparr>responseCode = 200, respBody = ''ok'', respHeaders = Map.empty\<rparr>
                 (heap ex_submitted 0)), responses := []\<rparr>, 1)"
proof -
  have l: "wait_locate ex_submitted '''' 0 1 '''' = Some (1, \<lparr>timestamp = 1, result = 0\<rparr>)"
    by (simp add: wait_locate_def ex_submitted_eval)
  show ?thesis
    unfolding wait_def l
    by (simp add: wait_loop_step wait_loop_returns ex_submitted_eval erase_def ex_env_def)
qed

subsection \<open>Dropping\<close>

lemma drop_cc_keeps_registry:
  assumes "drop_cc env s c t k sh = Inr s'"
  shows "responses s' = responses s" and "heap s' = heap s"
    and "enquire env s' ticket = enquire env s ticket"
proof -
  from assms obtain ts tidx rc ridx where
    "s' = s\<lparr>toSend := ts, toSendByOpID := tidx, received := rc, receivedByOpID := ridx\<rparr>"
    by (auto simp: drop_cc_def split: sum.splits prod.splits)
  then show "responses s' = responses s" and "heap s' = heap s"
    and "enquire env s' ticket = enquire env s ticket"
    by (simp_all add: enquire_def split: option.split)
qed

text \<open>
  Claim C4.  A \<^verbatim>\<open>drop\<close> whose arguments match a tracked ticket should remove its record,
  so that \<^verbatim>\<open>enquire\<close> answers Dropped afterwards.  For the tracked ticket 1, whose record
  is Submitted, a \<^verbatim>\<open>drop\<close> with the transaction ids, the ticket and the shard of that
  record leaves the dispatcher as it was: \<^verbatim>\<open>drop\<close> walks the queues \<^verbatim>\<open>toSend\<close> and
  \<^verbatim>\<open>received\<close> only, the entry stays in \<^verbatim>\<open>responses\<close> and \<^verbatim>\<open>enquire\<close> still answers
  Submitted.
\<close>

theorem drop_keeps_tracked_record:
  "map_of (responses ex_submitted) 1 = Some \<lparr>timestamp = 1, result = 0\<rparr> \<and>
   status (enquire ex_env ex_submitted 1) = CL_COMM_SUBMITTED \<and>
   drop_cc ex_env ex_submitted ''ctx'' 42 1 ''S1'' = Inr ex_submitted \<and>
   status (enquire ex_env ex_submitted 1) \<noteq> CL_COMM_DROPPED"
  by (simp add: drop_cc_def ex_submitted_eval enquire_def)

subsection \<open>Matching\<close>

text \<open>
  Claim C8, as amended.  \<^verbatim>\<open>match\<close> is the specification's rule for the client
  transaction id, the coordinator transaction id and the shard, that is, the rule with
  the ticket filter left out.  The ticket is used by \<^verbatim>\<open>wait\<close> itself: with ticket zero
  it takes the first tracked record that satisfies \<^verbatim>\<open>match\<close>, and with a non-zero ticket
  the record tracked under that ticket, whatever the other filters are.
\<close>

theorem match_rule:
  "match clientTxID coordTxID shID res = spec_match clientTxID coordTxID 0 shID res \<and>
   wait_locate s clientTxID coordTxID ticketId shID =
     (if ticketId = 0
      then find (\<lambda>(k, response).
                   spec_match clientTxID coordTxID 0 shID (heap s (result response)))
             (responses s)
      else find (\<lambda>(k, response). k = ticketId) (responses s))"
proof -
  have m: "match c t sh r = spec_match c t 0 sh r" for c t sh r
    by (auto simp: match_def spec_match_def)
  show ?thesis
    by (simp add: m wait_locate_def)
qed

text \<open>
  Claim C8 as stated fails.  \<^verbatim>\<open>match\<close> accepts a record whose operation id is 6 under
  filters that the four-filter rule, given ticket 5, rejects; and a \<^verbatim>\<open>wait\<close> for ticket 1
  with client transaction id \<open>other\<close> locates the record of ticket 1, whose client
  transaction id is \<open>ctx\<close>, which the four-filter rule rejects as well.
\<close>

theorem match_rule_counterexample:
  "match '''' 0 '''' (ex_defaults\<lparr>operationID := 6\<rparr>) \<and>
   \<not> spec_match '''' 0 5 '''' (ex_defaults\<lparr>operationID := 6\<rparr>) \<and>
   clientTransactionID (heap ex_submitted 0) = ''ctx'' \<and>
   wait_locate ex_submitted ''other'' 0 1 '''' = Some (1, \<lparr>timestamp = 1, result = 0\<rparr>) \<and>
   \<not> spec_match ''other'' 0 1 '''' (heap ex_submitted 0)"
  by (simp add: match_def spec_match_def wait_locate_def ex_submitted_eval ex_defaults_def)

text \<open>
  The condition of \<^verbatim>\<open>drop\<close> joins the ticket test and \<^verbatim>\<open>match\<close> by a disjunction: an
  operation is selected when the ticket is non-zero and equal to its operation id, or
  when the three other filters hold.  With ticket 5 and wildcards elsewhere an operation
  with id 6 is selected.
\<close>

lemma drop_selects_rule:
  "drop_selects clientTxID coordTxID ticketId shID res =
     ((ticketId \<noteq> 0 \<and> ticketId = operationID res) \<or>
      spec_match clientTxID coordTxID 0 shID res)"
  by (auto simp: drop_selects_def match_def spec_match_def)

lemma drop_selects_other_ticket:
  "drop_selects '''' 0 5 '''' (ex_defaults\<lparr>operationID := 6\<rparr>)"
  by (simp add: drop_selects_def match_def)

subsection \<open>Fan-out orchestrator\<close>

lemma ex_sent_eval:
  "opIDtoIndex (ex_sent env) 1 = Some 0"
  "map rq_done (requests (ex_sent env)) = [False]"
  "dueTime (ex_sent env) = [15]"
  "nrDone (ex_sent env) = 0"
  "length (requests (ex_sent env)) = 1"
  "rq_done (requests (ex_sent env) ! 0) = False"
  by (simp_all add: ex_sent_def send_due_def send_one_def is_due_def perform_init_def Let_def
      ex_request_def asyncRequest_ticket ex_cc_def)

text \<open>
  With assertions compiled out, a result in status BackendUnavailable, or in status
  Timeout with an incomplete send, reschedules its request at
  \<open>now + min 10 (max 0.2 (2 * (now - startTime)))\<close>; if that is at or past the end time
  the request is marked done, counted, and not due at any later time.
\<close>

lemma handle_result_reschedules:
  assumes rel: "\<not> maintainerMode env"
    and idx: "opIDtoIndex st (operationID res) = Some i"
    and len: "i < length (requests st)" "i < length (dueTime st)"
    and retry: "status res = CL_COMM_BACKEND_UNAVAILABLE \<or>
                (status res = CL_COMM_TIMEOUT \<and> \<not> sendWasComplete res \<and> operationID res \<noteq> 0)"
  shows "case handle_result env startTime endTime now now2 res st an of
           Inl e \<Rightarrow> False
         | Inr (ctl, st', an') \<Rightarrow>
             dueTime st' ! i = now + min 10 (max 0.2 (2 * (now - startTime))) \<and>
             (if endTime \<le> dueTime st' ! i
              then rq_done (requests st' ! i) \<and> nrDone st' = nrDone st + 1 \<and>
                   (\<forall>now'. \<not> is_due st' now' i)
              else rq_done (requests st' ! i) = rq_done (requests st ! i) \<and>
                   nrDone st' = nrDone st \<and>
                   (\<forall>now'. is_due st' now' i \<longleftrightarrow>
                      \<not> rq_done (requests st ! i) \<and>
                      now + min 10 (max 0.2 (2 * (now - startTime))) \<le> now'))"
proof -
  from retry have a: "(status res = CL_COMM_TIMEOUT \<and> operationID res = 0) = False"
    and b: "(status res = CL_COMM_DROPPED) = False"
    and c: "(status res = CL_COMM_RECEIVED) = False"
    and d: "(status res = CL_COMM_BACKEND_UNAVAILABLE \<or>
             status res = CL_COMM_TIMEOUT \<and> \<not> sendWasComplete res) = True"
    by auto
  show ?thesis
    unfolding handle_result_def a b c d using rel idx len
    by (simp add: Let_def loop_end_def is_due_def add.commute)
qed

text \<open>
  Every other result of a request marks it done and counts it; it is not due again.
\<close>

lemma handle_result_no_other_retry:
  assumes idx: "opIDtoIndex st (operationID res) = Some i"
    and len: "i < length (requests st)" "i < length (dueTime st)"
    and other: "status res \<noteq> CL_COMM_BACKEND_UNAVAILABLE" "status res \<noteq> CL_COMM_DROPPED"
      "status res = CL_COMM_TIMEOUT \<Longrightarrow> sendWasComplete res \<and> operationID res \<noteq> 0"
  shows "case handle_result env startTime endTime now now2 res st an of
           Inl e \<Rightarrow> False
         | Inr (ctl, st', an') \<Rightarrow>
             rq_done (requests st' ! i) \<and> nrDone st' = nrDone st + 1 \<and>
             dueTime st' = dueTime st \<and> an' = an \<and> (\<forall>now'. \<not> is_due st' now' i)"
proof -
  from other have a: "(status res = CL_COMM_TIMEOUT \<and> operationID res = 0) = False"
    and b: "(status res = CL_COMM_DROPPED) = False"
    and d: "(status res = CL_COMM_BACKEND_UNAVAILABLE \<or>
             status res = CL_COMM_TIMEOUT \<and> \<not> sendWasComplete res) = False"
    by auto
  show ?thesis
    unfolding handle_result_def a b d using idx len
    by (simp add: Let_def loop_end_def is_due_def)
qed

text \<open>
  A request that is not due is not sent: the sending loop leaves the state as it is.
\<close>

lemma send_one_not_due:
  "\<not> is_due st now i \<Longrightarrow>
   send_one env now startTime endTime coordinatorTransactionID stamp st i = st"
  by (simp add: send_one_def)

lemma handle_result_release_example:
  "\<exists>st'. handle_result ex_env 0 5 1 1 ex_unavailable (ex_sent ex_env) 5 = Inr (LoopNext, st', 3) \<and>
         dueTime st' = [3] \<and> map rq_done (requests st') = [False] \<and> nrDone st' = 0"
proof -
  have u: "operationID ex_unavailable = 1" "status ex_unavailable = CL_COMM_BACKEND_UNAVAILABLE"
    by (simp_all add: ex_unavailable_def)
  have m: "\<not> maintainerMode ex_env"
    by (simp add: ex_env_def)
  have l: "length (dueTime (ex_sent ex_env)) = 1"
    by (simp add: ex_sent_eval)
  show ?thesis
    by (simp add: handle_result_def u ex_sent_eval m Let_def loop_end_def l map_update)
qed

text \<open>
  Claim C6.  A sub-request that completes with status BackendUnavailable should be
  rescheduled with backoff.  The branch that reschedules begins with
  \<^verbatim>\<open>TRI_ASSERT(false)\<close>: with assertions compiled in, the result for the request sent with
  ticket 1 stops \<^verbatim>\<open>performRequests\<close> with a failed assertion before any due time is
  written.
\<close>

theorem handle_result_unavailable_asserts:
  "opIDtoIndex (ex_sent ex_env_maintainer) (operationID ex_unavailable) = Some 0 \<and>
   status ex_unavailable = CL_COMM_BACKEND_UNAVAILABLE \<and>
   handle_result ex_env_maintainer 0 5 1 1 ex_unavailable (ex_sent ex_env_maintainer) 5 =
     Inl AssertionFailed"
proof -
  have u: "operationID ex_unavailable = 1" "status ex_unavailable = CL_COMM_BACKEND_UNAVAILABLE"
    by (simp_all add: ex_unavailable_def)
  have m: "maintainerMode ex_env_maintainer"
    by (simp add: ex_env_maintainer_def)
  show ?thesis
    by (simp add: handle_result_def u ex_sent_eval m)
qed

end
